theory Spec2Isabelle
  imports Main
begin

section \<open>JavaScript values\<close>

text \<open>
  The server in \<^verbatim>\<open>web/index.js\<close> handles JSON data only: the request body parsed by
  \<^verbatim>\<open>express.json()\<close>, the response objects of the GraphQL client, and the objects it
  builds from them. A value is therefore \<^verbatim>\<open>undefined\<close> or what \<^verbatim>\<open>JSON.parse\<close> yields. An
  object is the list of its own properties in enumeration order.

  The model does not have every number and string of the language. A number is an integer
  \<open>JNum i\<close> of magnitude at most \<open>2\<^sup>5\<^sup>3\<close>, the range in which every integer is a number of
  the language and is written in plain decimal, or one of the infinities, which
  \<^verbatim>\<open>JSON.parse\<close> yields for a literal such as \<^verbatim>\<open>1e999\<close>: \<open>JInfinity True\<close> is \<^verbatim>\<open>Infinity\<close>
  and \<open>JInfinity False\<close> is \<^verbatim>\<open>-Infinity\<close>. Numbers with a fraction, larger finite numbers
  and negative zero are not modelled. A string is a sequence of code units below 256.
\<close>

datatype jsval =
    JUndefined
  | JNull
  | JBool bool
  | JNum int
  | JInfinity bool
  | JStr string
  | JArr "jsval list"
  | JObj "(string \<times> jsval) list"

text \<open>
  What a \<^verbatim>\<open>throw\<close> carries: a \<^verbatim>\<open>TypeError\<close> of the language itself, the
  \<^verbatim>\<open>GraphqlQueryError\<close> of the client library with its \<^verbatim>\<open>response\<close> field, or anything else
  the client may throw.
\<close>

datatype js_error =
    TypeError
  | GraphqlQueryError jsval
  | OtherError string

fun nullish :: "jsval \<Rightarrow> bool" where
  "nullish JUndefined = True"
| "nullish JNull = True"
| "nullish _ = False"

text \<open>
  \<^verbatim>\<open>v.p\<close> for the property names the program reads (\<^verbatim>\<open>body\<close>, \<^verbatim>\<open>data\<close>, \<^verbatim>\<open>userErrors\<close>,
  \<^verbatim>\<open>length\<close>, \<^verbatim>\<open>message\<close>, \<^verbatim>\<open>id\<close>, ...): none of them is an array index or a member of a
  built-in prototype other than \<^verbatim>\<open>length\<close>, so the value is the own property or
  \<^verbatim>\<open>undefined\<close>. Reading a property of \<^verbatim>\<open>undefined\<close> or \<^verbatim>\<open>null\<close> throws a \<^verbatim>\<open>TypeError\<close>.
\<close>

fun own_property :: "jsval \<Rightarrow> string \<Rightarrow> jsval" where
  "own_property (JObj ms) p = (case map_of ms p of None \<Rightarrow> JUndefined | Some v \<Rightarrow> v)"
| "own_property (JArr es) p = (if p = ''length'' then JNum (int (length es)) else JUndefined)"
| "own_property (JStr s) p = (if p = ''length'' then JNum (int (length s)) else JUndefined)"
| "own_property _ p = JUndefined"

definition js_get :: "jsval \<Rightarrow> string \<Rightarrow> js_error + jsval" where
  "js_get v p = (if nullish v then Inl TypeError else Inr (own_property v p))"

text \<open>Optional chaining \<^verbatim>\<open>v?.p\<close>.\<close>

definition js_get_opt :: "jsval \<Rightarrow> string \<Rightarrow> jsval" where
  "js_get_opt v p = (if nullish v then JUndefined else own_property v p)"

text \<open>\<^verbatim>\<open>delete v.p\<close>: removes the own property of an object, and does nothing to other values.\<close>

fun js_delete :: "jsval \<Rightarrow> string \<Rightarrow> jsval" where
  "js_delete (JObj ms) p = JObj (filter (\<lambda>kv. fst kv \<noteq> p) ms)"
| "js_delete v p = v"

text \<open>\<^verbatim>\<open>ToBoolean\<close>.\<close>

fun js_truthy :: "jsval \<Rightarrow> bool" where
  "js_truthy JUndefined = False"
| "js_truthy JNull = False"
| "js_truthy (JBool b) = b"
| "js_truthy (JNum n) = (n \<noteq> 0)"
| "js_truthy (JInfinity positive) = True"
| "js_truthy (JStr s) = (s \<noteq> [])"
| "js_truthy (JArr es) = True"
| "js_truthy (JObj ms) = True"

subsection \<open>Conversion to strings\<close>

definition digit_char :: "nat \<Rightarrow> char" where
  "digit_char d = char_of (48 + d)"

fun decimal :: "nat \<Rightarrow> string" where
  "decimal n = (if n < 10 then [digit_char n] else decimal (n div 10) @ [digit_char (n mod 10)])"

declare decimal.simps [simp del]

text \<open>
  \<^verbatim>\<open>Number.prototype.toString\<close> on an integer of the model, of magnitude at most \<open>2\<^sup>5\<^sup>3\<close>: its
  decimal digits. (Beyond that range the language rounds the digits, and from \<^verbatim>\<open>1e21\<close> it
  uses the exponent form; such numbers are not values of the model.)
\<close>

definition Number_toString :: "int \<Rightarrow> string" where
  "Number_toString i = (if i < 0 then CHR ''-'' # decimal (nat (- i)) else decimal (nat i))"

text \<open>
  \<^verbatim>\<open>Array.prototype.join\<close> on the strings of the elements, as the language defines it: the
  separator goes before every element but the first.
\<close>

fun join_from :: "string \<Rightarrow> string \<Rightarrow> nat \<Rightarrow> string list \<Rightarrow> string" where
  "join_from sep R k [] = R"
| "join_from sep R k (x # xs) = join_from sep ((if 0 < k then R @ sep else R) @ x) (Suc k) xs"

definition Array_join :: "string \<Rightarrow> string list \<Rightarrow> string" where
  "Array_join sep xs = join_from sep [] 0 xs"

text \<open>Collecting the results of a step that may throw, left to right.\<close>

fun sequence_sum :: "('e + 'a) list \<Rightarrow> 'e + 'a list" where
  "sequence_sum [] = Inr []"
| "sequence_sum (x # xs) =
     (case x of Inl e \<Rightarrow> Inl e
      | Inr a \<Rightarrow> (case sequence_sum xs of Inl e \<Rightarrow> Inl e | Inr as \<Rightarrow> Inr (a # as)))"

text \<open>
  \<^verbatim>\<open>ToString\<close>. An array is joined with commas, where \<^verbatim>\<open>undefined\<close> and \<^verbatim>\<open>null\<close> elements
  give the empty string. A plain object gives \<^verbatim>\<open>[object Object]\<close> through the \<^verbatim>\<open>toString\<close> of
  its prototype, unless it has an own property \<^verbatim>\<open>toString\<close>: that one is JSON data and not
  callable, \<^verbatim>\<open>valueOf\<close> gives no primitive either, and the conversion throws a \<^verbatim>\<open>TypeError\<close>.
\<close>

fun js_to_string :: "jsval \<Rightarrow> js_error + string" where
  "js_to_string JUndefined = Inr ''undefined''"
| "js_to_string JNull = Inr ''null''"
| "js_to_string (JBool b) = Inr (if b then ''true'' else ''false'')"
| "js_to_string (JNum i) = Inr (Number_toString i)"
| "js_to_string (JInfinity positive) = Inr (if positive then ''Infinity'' else ''-Infinity'')"
| "js_to_string (JStr s) = Inr s"
| "js_to_string (JArr es) =
     (case sequence_sum (map (\<lambda>e. if nullish e then Inr [] else js_to_string e) es) of
        Inl e \<Rightarrow> Inl e
      | Inr ss \<Rightarrow> Inr (Array_join '','' ss))"
| "js_to_string (JObj ms) =
     (if ''toString'' \<in> set (map fst ms) then Inl TypeError else Inr ''[object Object]'')"

text \<open>
  \<^verbatim>\<open>v > 0\<close>. The operand is converted to a number: \<^verbatim>\<open>undefined\<close> to \<^verbatim>\<open>NaN\<close>, \<^verbatim>\<open>null\<close> to 0,
  a boolean to 0 or 1, an array or object to its string first. How a string converts to a
  number is the language's \<^verbatim>\<open>StringToNumber\<close>; the model takes \<open>strPositive s\<close>, "the
  number of the string \<open>s\<close> is greater than 0", as a parameter.
\<close>

fun js_gt_zero :: "(string \<Rightarrow> bool) \<Rightarrow> jsval \<Rightarrow> js_error + bool" where
  "js_gt_zero strPositive JUndefined = Inr False"
| "js_gt_zero strPositive JNull = Inr False"
| "js_gt_zero strPositive (JBool b) = Inr b"
| "js_gt_zero strPositive (JNum i) = Inr (0 < i)"
| "js_gt_zero strPositive (JInfinity positive) = Inr positive"
| "js_gt_zero strPositive (JStr s) = Inr (strPositive s)"
| "js_gt_zero strPositive v =
     (case js_to_string v of Inl e \<Rightarrow> Inl e | Inr s \<Rightarrow> Inr (strPositive s))"

section \<open>The HTTP response and the GraphQL client\<close>

text \<open>
  \<^verbatim>\<open>res.status(c).send(b)\<close> is recorded as a response with its status and body; \<^verbatim>\<open>send()\<close>
  without an argument sends an empty body. The object \<^verbatim>\<open>res\<close> is modelled by the list of the
  responses sent through it so far.
\<close>

record http_response =
  status :: nat
  body :: "jsval option"

type_synonym response_log = "http_response list"

definition res_status_send :: "nat \<Rightarrow> jsval option \<Rightarrow> response_log \<Rightarrow> response_log" where
  "res_status_send c b res = res @ [\<lparr>status = c, body = b\<rparr>]"

text \<open>
  The four mutation documents of the source. The two \<^verbatim>\<open>MetafieldsSet\<close> documents differ in
  the namespace of the metafield only, which is the argument here.
\<close>

datatype mutation_document =
    PaymentCustomizationCreate
  | DeliveryCustomizationCreate
  | MetafieldsSet string

record gql_request =
  query :: mutation_document
  variables :: jsval

text \<open>
  The client is outside the repository. \<^verbatim>\<open>graphqlClient.query(request)\<close> either returns a
  response object or throws; the answer may depend on the requests made before. The calls
  made are logged in order.
\<close>

type_synonym graphql_client = "gql_request list \<Rightarrow> gql_request \<Rightarrow> js_error + jsval"

record handler_state =
  sent :: response_log
  issued :: "gql_request list"

definition graphql_query ::
  "graphql_client \<Rightarrow> gql_request \<Rightarrow> handler_state \<Rightarrow> (js_error + jsval) \<times> handler_state" where
  "graphql_query client request st = (client (issued st) request, st\<lparr>issued := issued st @ [request]\<rparr>)"

definition initial_state :: handler_state where
  "initial_state = \<lparr>sent = [], issued = []\<rparr>"

section \<open>handleUserError\<close>

text \<open>\<^verbatim>\<open>userErrors.map((error) => error.message)\<close>: only an array has a callable \<^verbatim>\<open>map\<close>.\<close>

fun map_message :: "jsval \<Rightarrow> js_error + jsval list" where
  "map_message (JArr es) = sequence_sum (map (\<lambda>error. js_get error ''message'') es)"
| "map_message v = Inl TypeError"

text \<open>\<^verbatim>\<open>messages.join(' ')\<close>.\<close>

definition join_messages :: "jsval list \<Rightarrow> js_error + string" where
  "join_messages ms =
     (case sequence_sum (map (\<lambda>e. if nullish e then Inr [] else js_to_string e) ms) of
        Inl e \<Rightarrow> Inl e
      | Inr ss \<Rightarrow> Inr (Array_join '' '' ss))"

definition handleUserError ::
  "(string \<Rightarrow> bool) \<Rightarrow> jsval \<Rightarrow> response_log \<Rightarrow> (js_error + bool) \<times> response_log" where
  "handleUserError strPositive userErrors res =
     (if \<not> js_truthy userErrors then (Inr False, res)
      else case js_get userErrors ''length'' of
        Inl e \<Rightarrow> (Inl e, res)
      | Inr len \<Rightarrow>
         (case js_gt_zero strPositive len of
            Inl e \<Rightarrow> (Inl e, res)
          | Inr False \<Rightarrow> (Inr False, res)
          | Inr True \<Rightarrow>
             (case map_message userErrors of
                Inl e \<Rightarrow> (Inl e, res)
              | Inr messages \<Rightarrow>
                 (case join_messages messages of
                    Inl e \<Rightarrow> (Inl e, res)
                  | Inr message \<Rightarrow>
                      (Inr True, res_status_send 500 (Some (JObj [(''error'', JStr message)])) res)))))"

section \<open>JSON.stringify\<close>

text \<open>
  \<^verbatim>\<open>JSON.stringify\<close> without replacer and indentation, as the language defines it
  (\<^verbatim>\<open>QuoteJSONString\<close>, \<^verbatim>\<open>SerializeJSONProperty\<close>). A string is quoted; the quote, the
  backslash and the control characters are escaped, five of them by their short forms and the
  others as \<^verbatim>\<open>\u00xx\<close> in lowercase hexadecimal.
\<close>

definition hex_digit :: "nat \<Rightarrow> char" where
  "hex_digit d = (if d < 10 then char_of (48 + d) else char_of (87 + d))"

definition json_escape :: "char \<Rightarrow> string" where
  "json_escape c =
     (if c = CHR 0x08 then [CHR 0x5C, CHR ''b'']
      else if c = CHR 0x09 then [CHR 0x5C, CHR ''t'']
      else if c = CHR 0x0A then [CHR 0x5C, CHR ''n'']
      else if c = CHR 0x0C then [CHR 0x5C, CHR ''f'']
      else if c = CHR 0x0D then [CHR 0x5C, CHR ''r'']
      else if c = CHR 0x22 then [CHR 0x5C, CHR 0x22]
      else if c = CHR 0x5C then [CHR 0x5C, CHR 0x5C]
      else if (of_char c :: nat) < 32 then
        [CHR 0x5C, CHR ''u'', CHR ''0'', CHR ''0'',
         hex_digit (of_char c div 16), hex_digit (of_char c mod 16)]
      else [c])"

definition QuoteJSONString :: "string \<Rightarrow> string" where
  "QuoteJSONString s = CHR 0x22 # concat (map json_escape s) @ [CHR 0x22]"

text \<open>
  The result \<open>None\<close> is \<^verbatim>\<open>undefined\<close>: a property with that value is left out of an object, and
  written \<^verbatim>\<open>null\<close> in an array. A number that is not finite is written \<^verbatim>\<open>null\<close>. JSON data
  has no callable \<^verbatim>\<open>toJSON\<close>.
\<close>

fun SerializeJSONProperty :: "jsval \<Rightarrow> string option" where
  "SerializeJSONProperty JUndefined = None"
| "SerializeJSONProperty JNull = Some ''null''"
| "SerializeJSONProperty (JBool b) = Some (if b then ''true'' else ''false'')"
| "SerializeJSONProperty (JNum i) = Some (Number_toString i)"
| "SerializeJSONProperty (JInfinity positive) = Some ''null''"
| "SerializeJSONProperty (JStr s) = Some (QuoteJSONString s)"
| "SerializeJSONProperty (JArr es) =
     Some (''['' @ Array_join '',''
        (map (\<lambda>e. case SerializeJSONProperty e of None \<Rightarrow> ''null'' | Some s \<Rightarrow> s) es) @ '']'')"
| "SerializeJSONProperty (JObj ms) =
     Some (''{'' @ Array_join '',''
        (concat (map (\<lambda>kv. case SerializeJSONProperty (snd kv) of
                          None \<Rightarrow> []
                        | Some s \<Rightarrow> [QuoteJSONString (fst kv) @ '':'' @ s]) ms)) @ ''}'')"

definition JSON_stringify :: "jsval \<Rightarrow> jsval" where
  "JSON_stringify v = (case SerializeJSONProperty v of None \<Rightarrow> JUndefined | Some s \<Rightarrow> JStr s)"

section \<open>The two handlers\<close>

text \<open>
  A step of a handler may throw, and it may send a response or call the client: it maps the
  state to a result, thrown error or value, and the state after it. \<open>and_then\<close> runs the
  next step on the value, and stops at a thrown error as the rest of a \<^verbatim>\<open>try\<close> block does.
\<close>

type_synonym 'a step = "handler_state \<Rightarrow> (js_error + 'a) \<times> handler_state"

definition and_then :: "'a step \<Rightarrow> ('a \<Rightarrow> 'b step) \<Rightarrow> 'b step" where
  "and_then m f st = (case m st of (Inl e, st') \<Rightarrow> (Inl e, st') | (Inr a, st') \<Rightarrow> f a st')"

definition evaluate :: "js_error + 'a \<Rightarrow> 'a step" where
  "evaluate r st = (r, st)"

definition on_res :: "(response_log \<Rightarrow> (js_error + 'a) \<times> response_log) \<Rightarrow> 'a step" where
  "on_res f st = (case f (sent st) of (r, res') \<Rightarrow> (r, st\<lparr>sent := res'\<rparr>))"

definition bind_error :: "'e + 'a \<Rightarrow> ('a \<Rightarrow> 'e + 'b) \<Rightarrow> 'e + 'b" where
  "bind_error r f = (case r of Inl e \<Rightarrow> Inl e | Inr a \<Rightarrow> f a)"

text \<open>
  What a \<^verbatim>\<open>try\<close> block did when it ended without throwing: it ran to its end, or it left
  the function by \<^verbatim>\<open>return\<close>.
\<close>

datatype completion = Finished | Returned

subsection \<open>createPaymentCustomization\<close>

text \<open>
  The argument of the first \<^verbatim>\<open>graphqlClient.query\<close>: the title is a template literal, which
  converts the two fields of the payload to strings.
\<close>

definition payment_create_request :: "jsval \<Rightarrow> js_error + gql_request" where
  "payment_create_request payload =
     bind_error (js_get payload ''functionId'') (\<lambda>functionId.
     bind_error (js_get payload ''paymentMethod'') (\<lambda>paymentMethod.
     bind_error (js_to_string paymentMethod) (\<lambda>pm.
     bind_error (js_get payload ''cartTotal'') (\<lambda>cartTotal.
     bind_error (js_to_string cartTotal) (\<lambda>ct.
     Inr \<lparr>query = PaymentCustomizationCreate,
          variables = JObj [(''input'', JObj
            [(''functionId'', functionId),
             (''title'', JStr (''Hide '' @ pm @ '' if cart total is larger than '' @ ct)),
             (''enabled'', JBool True)])]\<rparr>)))))"

definition payment_metafield_request :: "jsval \<Rightarrow> jsval \<Rightarrow> js_error + gql_request" where
  "payment_metafield_request payload customizationId =
     bind_error (js_get payload ''paymentMethod'') (\<lambda>paymentMethod.
     bind_error (js_get payload ''cartTotal'') (\<lambda>cartTotal.
     Inr \<lparr>query = MetafieldsSet ''$app:payment-customization'',
          variables = JObj
            [(''customizationId'', customizationId),
             (''configurationValue'', JSON_stringify (JObj
                [(''paymentMethodName'', paymentMethod), (''cartTotal'', cartTotal)]))]\<rparr>))"

text \<open>The body of the \<^verbatim>\<open>try\<close> block, lines 95 to 155.\<close>

definition createPaymentCustomization_try ::
  "(string \<Rightarrow> bool) \<Rightarrow> graphql_client \<Rightarrow> jsval \<Rightarrow> completion step" where
  "createPaymentCustomization_try strPositive graphqlClient payload =
     and_then (evaluate (payment_create_request payload)) (\<lambda>request1.
     and_then (graphql_query graphqlClient request1) (\<lambda>createResponse.
     and_then (evaluate (Inr (js_get_opt (js_get_opt (js_get_opt createResponse
         ''body'') ''data'') ''paymentCustomizationCreate''))) (\<lambda>createResult.
     and_then (evaluate (js_get createResult ''userErrors'')) (\<lambda>userErrors.
     and_then (on_res (handleUserError strPositive userErrors)) (\<lambda>handled.
     if handled then evaluate (Inr Returned) else
     and_then (evaluate (js_get createResult ''paymentCustomization'')) (\<lambda>created.
     and_then (evaluate (js_get created ''id'')) (\<lambda>customizationId.
     and_then (evaluate (payment_metafield_request payload customizationId)) (\<lambda>request2.
     and_then (graphql_query graphqlClient request2) (\<lambda>metafieldResponse.
     and_then (evaluate (js_get metafieldResponse ''body'')) (\<lambda>body2.
     and_then (evaluate (js_get body2 ''data'')) (\<lambda>data2.
     and_then (evaluate (js_get data2 ''metafieldsSet'')) (\<lambda>metafieldResult.
     and_then (on_res (handleUserError strPositive metafieldResult)) (\<lambda>handled2.
     if handled2 then evaluate (Inr Returned) else evaluate (Inr Finished))))))))))))))"

text \<open>
  The \<^verbatim>\<open>catch\<close> clause and the end of the function: an error that is not a
  \<^verbatim>\<open>GraphqlQueryError\<close> is thrown again, and the \<^verbatim>\<open>async\<close> function rejects with it.
\<close>

fun catch_and_respond ::
  "(js_error + completion) \<times> handler_state \<Rightarrow> (js_error + unit) \<times> handler_state" where
  "catch_and_respond (Inl (GraphqlQueryError response), st) =
     (Inr (), st\<lparr>sent := res_status_send 500 (Some (JObj [(''error'', response)])) (sent st)\<rparr>)"
| "catch_and_respond (Inl error, st) = (Inl error, st)"
| "catch_and_respond (Inr Returned, st) = (Inr (), st)"
| "catch_and_respond (Inr Finished, st) =
     (Inr (), st\<lparr>sent := res_status_send 200 None (sent st)\<rparr>)"

definition createPaymentCustomization ::
  "(string \<Rightarrow> bool) \<Rightarrow> graphql_client \<Rightarrow> jsval \<Rightarrow> unit step" where
  "createPaymentCustomization strPositive graphqlClient payload st =
     catch_and_respond (createPaymentCustomization_try strPositive graphqlClient payload st)"

subsection \<open>createDeliveryCustomization\<close>

definition delivery_create_request :: "jsval \<Rightarrow> js_error + gql_request" where
  "delivery_create_request payload =
     bind_error (js_get payload ''functionId'') (\<lambda>functionId.
     bind_error (js_get payload ''zip'') (\<lambda>zip.
     bind_error (js_to_string zip) (\<lambda>z.
     Inr \<lparr>query = DeliveryCustomizationCreate,
          variables = JObj [(''input'', JObj
            [(''functionId'', functionId),
             (''title'', JStr (''Display message for postal code: '' @ z)),
             (''enabled'', JBool True)])]\<rparr>)))"

definition delivery_metafield_request :: "jsval \<Rightarrow> jsval \<Rightarrow> js_error + gql_request" where
  "delivery_metafield_request payload customizationId =
     bind_error (js_get payload ''zip'') (\<lambda>zip.
     bind_error (js_get payload ''message'') (\<lambda>message.
     Inr \<lparr>query = MetafieldsSet ''$app:delivery-customization'',
          variables = JObj
            [(''customizationId'', customizationId),
             (''configurationValue'', JSON_stringify (JObj
                [(''zip'', zip), (''message'', message)]))]\<rparr>))"

text \<open>The body of the \<^verbatim>\<open>try\<close> block, lines 172 to 232.\<close>

definition createDeliveryCustomization_try ::
  "(string \<Rightarrow> bool) \<Rightarrow> graphql_client \<Rightarrow> jsval \<Rightarrow> completion step" where
  "createDeliveryCustomization_try strPositive graphqlClient payload =
     and_then (evaluate (delivery_create_request payload)) (\<lambda>request1.
     and_then (graphql_query graphqlClient request1) (\<lambda>createResponse.
     and_then (evaluate (js_get createResponse ''body'')) (\<lambda>body1.
     and_then (evaluate (js_get body1 ''data'')) (\<lambda>data1.
     and_then (evaluate (js_get data1 ''deliveryCustomizationCreate'')) (\<lambda>createResult.
     and_then (evaluate (js_get createResult ''userErrors'')) (\<lambda>userErrors.
     and_then (on_res (handleUserError strPositive userErrors)) (\<lambda>handled.
     if handled then evaluate (Inr Returned) else
     and_then (evaluate (js_get createResult ''deliveryCustomization'')) (\<lambda>created.
     and_then (evaluate (js_get created ''id'')) (\<lambda>customizationId.
     and_then (evaluate (delivery_metafield_request payload customizationId)) (\<lambda>request2.
     and_then (graphql_query graphqlClient request2) (\<lambda>metafieldResponse.
     and_then (evaluate (js_get metafieldResponse ''body'')) (\<lambda>body2.
     and_then (evaluate (js_get body2 ''data'')) (\<lambda>data2.
     and_then (evaluate (js_get data2 ''metafieldsSet'')) (\<lambda>metafieldResult.
     and_then (on_res (handleUserError strPositive metafieldResult)) (\<lambda>handled2.
     if handled2 then evaluate (Inr Returned) else evaluate (Inr Finished))))))))))))))))"

definition createDeliveryCustomization ::
  "(string \<Rightarrow> bool) \<Rightarrow> graphql_client \<Rightarrow> jsval \<Rightarrow> unit step" where
  "createDeliveryCustomization strPositive graphqlClient payload st =
     catch_and_respond (createDeliveryCustomization_try strPositive graphqlClient payload st)"

section \<open>The dispatcher of POST /api/graphql\<close>

text \<open>
  The handler reads \<^verbatim>\<open>requestName\<close> from the body, deletes it there, and switches on it with
  strict equality. The client is built from the session before; it is the parameter
  \<open>graphqlClient\<close>. Without a matching case the function returns without doing anything.
\<close>

definition post_api_graphql ::
  "(string \<Rightarrow> bool) \<Rightarrow> graphql_client \<Rightarrow> jsval \<Rightarrow> unit step" where
  "post_api_graphql strPositive graphqlClient reqBody st =
     (case js_get reqBody ''requestName'' of
        Inl e \<Rightarrow> (Inl e, st)
      | Inr requestName \<Rightarrow>
         (let requestBody = js_delete reqBody ''requestName'' in
          if requestName = JStr ''createDeliveryCustomization''
            then createDeliveryCustomization strPositive graphqlClient requestBody st
          else if requestName = JStr ''createPaymentCustomization''
            then createPaymentCustomization strPositive graphqlClient requestBody st
          else (Inr (), st)))"

section \<open>JSON.parse\<close>





definition digit_value :: "char \<Rightarrow> int" where
  "digit_value c = int (of_char c) - 48"



















section \<open>The vocabulary of the specification\<close>

text \<open>
  The specification speaks of a customization kind, of the user-error list of a mutation
  result, and of messages joined by a single space. These definitions give the words their
  meaning in terms of the source: the names in the \<^verbatim>\<open>switch\<close> of the dispatcher, the fields
  selected by the mutation documents, and the handlers themselves.
\<close>

datatype kind = Delivery | Payment

fun request_name :: "kind \<Rightarrow> string" where
  "request_name Delivery = ''createDeliveryCustomization''"
| "request_name Payment = ''createPaymentCustomization''"

fun create_field :: "kind \<Rightarrow> string" where
  "create_field Delivery = ''deliveryCustomizationCreate''"
| "create_field Payment = ''paymentCustomizationCreate''"

fun record_field :: "kind \<Rightarrow> string" where
  "record_field Delivery = ''deliveryCustomization''"
| "record_field Payment = ''paymentCustomization''"

fun create_request :: "kind \<Rightarrow> jsval \<Rightarrow> js_error + gql_request" where
  "create_request Delivery = delivery_create_request"
| "create_request Payment = payment_create_request"

fun metafield_request :: "kind \<Rightarrow> jsval \<Rightarrow> jsval \<Rightarrow> js_error + gql_request" where
  "metafield_request Delivery = delivery_metafield_request"
| "metafield_request Payment = payment_metafield_request"

fun handler :: "kind \<Rightarrow> (string \<Rightarrow> bool) \<Rightarrow> graphql_client \<Rightarrow> jsval \<Rightarrow> unit step" where
  "handler Delivery = createDeliveryCustomization"
| "handler Payment = createPaymentCustomization"

fun is_metafields_set :: "mutation_document \<Rightarrow> bool" where
  "is_metafields_set (MetafieldsSet namespace) = True"
| "is_metafields_set _ = False"

text \<open>
  The result of the mutation \<open>name\<close> in a response of the client:
  \<^verbatim>\<open>response.body.data[name]\<close>, and \<^verbatim>\<open>undefined\<close> where a level is missing.
\<close>

definition mutation_result :: "jsval \<Rightarrow> string \<Rightarrow> jsval" where
  "mutation_result response name = js_get_opt (js_get_opt (js_get_opt response ''body'') ''data'') name"

text \<open>An element \<^verbatim>\<open>{ message }\<close> of a \<^verbatim>\<open>userErrors\<close> list, as the mutation documents select it.\<close>

definition user_error :: "string \<Rightarrow> jsval" where
  "user_error m = JObj [(''message'', JStr m)]"

text \<open>The messages joined by a single space, in list order.\<close>

fun space_joined :: "string list \<Rightarrow> string" where
  "space_joined [] = []"
| "space_joined [m] = m"
| "space_joined (m # ms) = m @ '' '' @ space_joined ms"

text \<open>The body \<^verbatim>\<open>{ error: message }\<close> of an error response.\<close>

definition error_response :: "jsval \<Rightarrow> http_response" where
  "error_response e = \<lparr>status = 500, body = Some (JObj [(''error'', e)])\<rparr>"

definition ok_response :: http_response where
  "ok_response = \<lparr>status = 200, body = None\<rparr>"

text \<open>
  The arguments on which \<open>handleUserError\<close> answers: a non-empty array whose elements have a
  \<^verbatim>\<open>message\<close> that can be read and converted to a string.
\<close>

fun error_list :: "jsval \<Rightarrow> bool" where
  "error_list (JArr es) =
     (es \<noteq> [] \<and> list_all (\<lambda>e. \<not> nullish e \<and> \<not> isl (js_to_string (own_property e ''message''))) es)"
| "error_list _ = False"

text \<open>A user-error list that is empty or absent.\<close>

fun empty_or_absent :: "jsval \<Rightarrow> bool" where
  "empty_or_absent (JArr es) = (es = [])"
| "empty_or_absent JUndefined = True"
| "empty_or_absent JNull = True"
| "empty_or_absent _ = False"

subsection \<open>Example data\<close>

text \<open>
  Requests and responses of the shapes the mutation documents select, and a client that
  answers the create mutations with one given outcome and the metafield-set mutations with
  another, as the mock client of a test would.
\<close>

fun example_body :: "kind \<Rightarrow> jsval" where
  "example_body Delivery = JObj
     [(''requestName'', JStr ''createDeliveryCustomization''), (''functionId'', JStr ''fn-1''),
      (''zip'', JStr ''90210''), (''message'', JStr ''No delivery'')]"
| "example_body Payment = JObj
     [(''requestName'', JStr ''createPaymentCustomization''), (''functionId'', JStr ''fn-2''),
      (''paymentMethod'', JStr ''Cash''), (''cartTotal'', JStr ''100'')]"

definition create_response :: "kind \<Rightarrow> jsval \<Rightarrow> jsval \<Rightarrow> jsval" where
  "create_response kind created userErrors =
     JObj [(''body'', JObj [(''data'', JObj [(create_field kind,
       JObj [(record_field kind, created), (''userErrors'', userErrors)])])])]"

definition metafields_response :: "jsval \<Rightarrow> jsval \<Rightarrow> jsval" where
  "metafields_response metafields userErrors =
     JObj [(''body'', JObj [(''data'', JObj [(''metafieldsSet'',
       JObj [(''metafields'', metafields), (''userErrors'', userErrors)])])])]"

definition scripted_client :: "js_error + jsval \<Rightarrow> js_error + jsval \<Rightarrow> graphql_client" where
  "scripted_client first second log request =
     (if is_metafields_set (query request) then second else first)"

text \<open>A stand-in for the conversion of strings to numbers, where a closed term needs one.\<close>

definition no_string_positive :: "string \<Rightarrow> bool" where
  "no_string_positive s = False"

subsection \<open>JSON values\<close>











subsection \<open>Texts of values\<close>







section \<open>Joining and mapping\<close>

lemma join_from_Suc: "join_from sep R (Suc k) xs = R @ concat (map (\<lambda>x. sep @ x) xs)"
  by (induction xs arbitrary: R k) simp_all

lemma Array_join_Cons: "Array_join sep (x # xs) = x @ concat (map (\<lambda>y. sep @ y) xs)"
  by (simp add: Array_join_def join_from_Suc)

lemma space_joined_Cons: "space_joined (m # ms) = m @ concat (map (\<lambda>y. '' '' @ y) ms)"
  by (induction ms arbitrary: m) simp_all

lemma Array_join_space: "ms \<noteq> [] \<Longrightarrow> Array_join '' '' ms = space_joined ms"
  by (cases ms) (simp_all add: Array_join_Cons space_joined_Cons)

lemma sequence_sum_Inr:
  "(\<And>x. x \<in> set xs \<Longrightarrow> g x = Inr (f x)) \<Longrightarrow> sequence_sum (map g xs) = Inr (map f xs)"
  by (induction xs) simp_all

lemma map_message_user_errors: "map_message (JArr (map user_error ms)) = Inr (map JStr ms)"
proof -
  have "sequence_sum (map (\<lambda>m. js_get (user_error m) ''message'') ms) = Inr (map JStr ms)"
    by (rule sequence_sum_Inr) (simp add: user_error_def js_get_def)
  then show ?thesis
    by (simp add: comp_def)
qed

lemma join_messages_strings: "join_messages (map JStr ms) = Inr (Array_join '' '' ms)"
proof -
  have "sequence_sum (map (\<lambda>m. if nullish (JStr m) then Inr [] else js_to_string (JStr m)) ms)
      = Inr (map (\<lambda>m. m) ms)"
    by (rule sequence_sum_Inr) simp
  then show ?thesis
    by (simp add: join_messages_def comp_def)
qed

section \<open>What handleUserError does\<close>

lemma handleUserError_user_errors:
  assumes "ms \<noteq> []"
  shows "handleUserError sp (JArr (map user_error ms)) r
       = (Inr True, r @ [error_response (JStr (space_joined ms))])"
proof -
  have len: "js_get (JArr (map user_error ms)) ''length'' = Inr (JNum (int (length ms)))"
    by (simp add: js_get_def)
  have pos: "js_gt_zero sp (JNum (int (length ms))) = Inr True"
    using assms by simp
  show ?thesis
    unfolding handleUserError_def len pos map_message_user_errors join_messages_strings
    using assms
    by (simp add: join_messages_strings Array_join_space res_status_send_def error_response_def)
qed

lemma handleUserError_falsy: "\<not> js_truthy v \<Longrightarrow> handleUserError sp v r = (Inr False, r)"
  by (simp add: handleUserError_def)

lemma handleUserError_empty: "handleUserError sp (JArr []) r = (Inr False, r)"
  by (simp add: handleUserError_def js_get_def)

lemma handleUserError_no_length:
  "map_of ms ''length'' = None \<Longrightarrow> handleUserError sp (JObj ms) r = (Inr False, r)"
  by (simp add: handleUserError_def js_get_def)

section \<open>Reading the result of a mutation\<close>

lemma own_property_nullish: "nullish v \<Longrightarrow> own_property v p = JUndefined"
  by (cases v) simp_all

lemma js_get_opt_own: "js_get_opt v p = own_property v p"
  by (simp add: js_get_opt_def own_property_nullish)

lemma js_get_own: "\<not> nullish v \<Longrightarrow> js_get v p = Inr (own_property v p)"
  by (simp add: js_get_def)

lemma js_get_nullish: "nullish v \<Longrightarrow> js_get v p = Inl TypeError"
  by (simp add: js_get_def)

lemma mutation_result_own:
  "mutation_result r name = own_property (own_property (own_property r ''body'') ''data'') name"
  by (simp add: mutation_result_def js_get_opt_own)

lemma mutation_result_chain:
  assumes "\<not> nullish (mutation_result r name)"
  shows "js_get r ''body'' = Inr (own_property r ''body'')"
    and "js_get (own_property r ''body'') ''data'' = Inr (own_property (own_property r ''body'') ''data'')"
    and "js_get (own_property (own_property r ''body'') ''data'') name = Inr (mutation_result r name)"
proof -
  have d: "\<not> nullish (own_property (own_property r ''body'') ''data'')"
    using assms own_property_nullish [of "own_property (own_property r ''body'') ''data''" name]
    by (auto simp: mutation_result_own)
  then have b: "\<not> nullish (own_property r ''body'')"
    using own_property_nullish [of "own_property r ''body''" "''data''"] by auto
  then have r: "\<not> nullish r"
    using own_property_nullish [of r "''body''"] by auto
  show "js_get r ''body'' = Inr (own_property r ''body'')"
    using r by (rule js_get_own)
  show "js_get (own_property r ''body'') ''data'' = Inr (own_property (own_property r ''body'') ''data'')"
    using b by (rule js_get_own)
  show "js_get (own_property (own_property r ''body'') ''data'') name = Inr (mutation_result r name)"
    using d by (simp add: js_get_own mutation_result_own)
qed

lemma dispatch:
  assumes "js_get reqBody ''requestName'' = Inr (JStr (request_name kind))"
  shows "post_api_graphql sp client reqBody st = handler kind sp client (js_delete reqBody ''requestName'') st"
  using assms by (cases kind) (simp_all add: post_api_graphql_def)

lemma create_request_query:
  "create_request kind payload = Inr createRequest \<Longrightarrow> \<not> is_metafields_set (query createRequest)"
  by (cases kind)
    (auto simp: delivery_create_request_def payment_create_request_def bind_error_def
      split: sum.splits)

text \<open>The handler up to the check of the create result.\<close>

lemma handler_create_errors:
  assumes req: "create_request kind payload = Inr createRequest"
    and resp: "client (issued st) createRequest = Inr createResponse"
    and errs: "own_property (mutation_result createResponse (create_field kind)) ''userErrors''
                 = JArr (map user_error ms)"
    and ne: "ms \<noteq> []"
  shows "handler kind sp client payload st =
           (Inr (), st\<lparr>sent := sent st @ [error_response (JStr (space_joined ms))],
                       issued := issued st @ [createRequest]\<rparr>)"
proof -
  let ?cr = "mutation_result createResponse (create_field kind)"
  have nn: "\<not> nullish ?cr"
    using errs own_property_nullish [of ?cr "''userErrors''"] by auto
  have ue: "js_get ?cr ''userErrors'' = Inr (JArr (map user_error ms))"
    using nn errs by (simp add: js_get_own)
  note chain = mutation_result_chain [OF nn]
  show ?thesis
  proof (cases kind)
    case Delivery
    then show ?thesis
      using req resp ue chain ne
      by (simp add: createDeliveryCustomization_def createDeliveryCustomization_try_def
          and_then_def evaluate_def graphql_query_def on_res_def handleUserError_user_errors)
  next
    case Payment
    then show ?thesis
      using req resp ue ne
      by (simp add: createPaymentCustomization_def createPaymentCustomization_try_def
          and_then_def evaluate_def graphql_query_def on_res_def handleUserError_user_errors
          mutation_result_def [symmetric])
  qed
qed

lemma handler_create_throws:
  assumes req: "create_request kind payload = Inr createRequest"
    and resp: "client (issued st) createRequest = Inl e"
  shows "handler kind sp client payload st
       = catch_and_respond (Inl e, st\<lparr>issued := issued st @ [createRequest]\<rparr>)"
  using assms
  by (cases kind)
    (simp_all add: createDeliveryCustomization_def createDeliveryCustomization_try_def
      createPaymentCustomization_def createPaymentCustomization_try_def
      and_then_def evaluate_def graphql_query_def)

text \<open>The handler after a create result without user errors, when the record is missing.\<close>

lemma handler_record_missing:
  assumes req: "create_request kind payload = Inr createRequest"
    and resp: "client (issued st) createRequest = Inr createResponse"
    and nn: "\<not> nullish (mutation_result createResponse (create_field kind))"
    and noerr: "empty_or_absent
                  (own_property (mutation_result createResponse (create_field kind)) ''userErrors'')"
    and missing: "nullish
                  (own_property (mutation_result createResponse (create_field kind)) (record_field kind))"
  shows "handler kind sp client payload st = (Inl TypeError, st\<lparr>issued := issued st @ [createRequest]\<rparr>)"
proof -
  let ?cr = "mutation_result createResponse (create_field kind)"
  have h: "handleUserError sp (own_property ?cr ''userErrors'') r = (Inr False, r)" for r
    using noerr
    by (cases "own_property ?cr ''userErrors''")
      (simp_all add: handleUserError_falsy handleUserError_empty)
  note chain = mutation_result_chain [OF nn]
  show ?thesis
  proof (cases kind)
    case Delivery
    then show ?thesis
      using req resp chain nn missing h
      by (simp add: createDeliveryCustomization_def createDeliveryCustomization_try_def
          and_then_def evaluate_def graphql_query_def on_res_def js_get_own js_get_nullish)
  next
    case Payment
    then show ?thesis
      using req resp nn missing h
      by (simp add: createPaymentCustomization_def createPaymentCustomization_try_def
          and_then_def evaluate_def graphql_query_def on_res_def js_get_own js_get_nullish
          mutation_result_def [symmetric])
  qed
qed

text \<open>
  The handler after a create result without user errors, when the second call returns a
  result object that has no property \<^verbatim>\<open>length\<close>.
\<close>

lemma handler_metafields_object:
  assumes req: "create_request kind payload = Inr createRequest"
    and resp: "client (issued st) createRequest = Inr createResponse"
    and nn: "\<not> nullish (mutation_result createResponse (create_field kind))"
    and noerr: "empty_or_absent
                  (own_property (mutation_result createResponse (create_field kind)) ''userErrors'')"
    and created: "own_property (mutation_result createResponse (create_field kind)) (record_field kind)
                    = created"
    and present: "\<not> nullish created"
    and req2: "metafield_request kind payload (own_property created ''id'') = Inr metafieldRequest"
    and resp2: "client (issued st @ [createRequest]) metafieldRequest = Inr metafieldResponse"
    and mf: "mutation_result metafieldResponse ''metafieldsSet'' = JObj mfs"
    and nolen: "map_of mfs ''length'' = None"
  shows "handler kind sp client payload st =
           (Inr (), st\<lparr>sent := sent st @ [ok_response], issued := issued st @ [createRequest, metafieldRequest]\<rparr>)"
proof -
  let ?cr = "mutation_result createResponse (create_field kind)"
  have h: "handleUserError sp (own_property ?cr ''userErrors'') r = (Inr False, r)" for r
    using noerr
    by (cases "own_property ?cr ''userErrors''")
      (simp_all add: handleUserError_falsy handleUserError_empty)
  have nn2: "\<not> nullish (mutation_result metafieldResponse ''metafieldsSet'')"
    by (simp add: mf)
  note chain = mutation_result_chain [OF nn]
  note chain2 = mutation_result_chain [OF nn2]
  have h2: "handleUserError sp (JObj mfs) r = (Inr False, r)" for r
    using nolen by (rule handleUserError_no_length)
  show ?thesis
  proof (cases kind)
    case Delivery
    then show ?thesis
      using req resp chain nn created present req2 resp2 chain2 mf h h2
      by (simp add: createDeliveryCustomization_def createDeliveryCustomization_try_def
          and_then_def evaluate_def graphql_query_def on_res_def js_get_own
          res_status_send_def ok_response_def)
  next
    case Payment
    then show ?thesis
      using req resp nn created present req2 resp2 chain2 mf h h2
      by (simp add: createPaymentCustomization_def createPaymentCustomization_try_def
          and_then_def evaluate_def graphql_query_def on_res_def js_get_own
          res_status_send_def ok_response_def mutation_result_def [symmetric])
  qed
qed

section \<open>User errors of the create mutation\<close>

text \<open>
  C1. A request of either kind is dispatched to its handler, the create request is built from
  the payload and the client answers it with a response whose create result carries a
  non-empty list of user errors. Then the handler completes without throwing, it has sent
  exactly one response, with status 500 and the messages joined by single spaces as its
  error, and the create request is the only request it has issued: the metafield-set
  mutation is never issued.
\<close>

theorem create_user_errors_stop_before_metafields:
  assumes name: "js_get reqBody ''requestName'' = Inr (JStr (request_name kind))"
    and req: "create_request kind (js_delete reqBody ''requestName'') = Inr createRequest"
    and resp: "client (issued st) createRequest = Inr createResponse"
    and errs: "own_property (mutation_result createResponse (create_field kind)) ''userErrors''
                 = JArr (map user_error ms)"
    and ne: "ms \<noteq> []"
  shows "post_api_graphql sp client reqBody st =
           (Inr (), st\<lparr>sent := sent st @ [error_response (JStr (space_joined ms))],
                       issued := issued st @ [createRequest]\<rparr>)
         \<and> \<not> is_metafields_set (query createRequest)"
  using dispatch [OF name]
    handler_create_errors [where client = client, OF req resp errs ne]
    create_request_query [OF req]
  by simp

theorem create_user_errors_stop_before_metafields_witness:
  "post_api_graphql no_string_positive
     (scripted_client
        (Inr (create_response Delivery JNull (JArr [user_error ''A invalid'', user_error ''B required''])))
        (Inr (metafields_response JNull (JArr []))))
     (example_body Delivery) initial_state
   = (Inr (), \<lparr>sent = [error_response (JStr ''A invalid B required'')],
               issued = [\<lparr>query = DeliveryCustomizationCreate,
                           variables = JObj [(''input'', JObj
                             [(''functionId'', JStr ''fn-1''),
                              (''title'', JStr ''Display message for postal code: 90210''),
                              (''enabled'', JBool True)])]\<rparr>]\<rparr>)"
  using create_user_errors_stop_before_metafields
    [where reqBody = "example_body Delivery" and kind = Delivery and st = initial_state
       and ms = "[''A invalid'', ''B required'']" and sp = no_string_positive
       and client = "scripted_client
          (Inr (create_response Delivery JNull (JArr [user_error ''A invalid'', user_error ''B required''])))
          (Inr (metafields_response JNull (JArr [])))"
       and createResponse = "create_response Delivery JNull
          (JArr [user_error ''A invalid'', user_error ''B required''])"
       and createRequest = "\<lparr>query = DeliveryCustomizationCreate,
                           variables = JObj [(''input'', JObj
                             [(''functionId'', JStr ''fn-1''),
                              (''title'', JStr ''Display message for postal code: 90210''),
                              (''enabled'', JBool True)])]\<rparr>"]
  by (simp add: js_get_def delivery_create_request_def bind_error_def scripted_client_def
      initial_state_def create_response_def mutation_result_own)

section \<open>The outcome of the metafield-set mutation\<close>

text \<open>
  C4. A request of either kind, where the create result has an empty list of user errors and
  the created record (without which the second request is never issued), and the
  metafield-set mutation answers with a result that has its metafields and an empty list of
  user errors: the handler completes, it has sent exactly one response, with status 200 and
  no body, and it has issued the two requests in order.
\<close>

theorem success_answers_200_empty:
  assumes name: "js_get reqBody ''requestName'' = Inr (JStr (request_name kind))"
    and req: "create_request kind (js_delete reqBody ''requestName'') = Inr createRequest"
    and resp: "client (issued st) createRequest = Inr createResponse"
    and noerr: "own_property (mutation_result createResponse (create_field kind)) ''userErrors''
                  = JArr []"
    and created: "own_property (mutation_result createResponse (create_field kind)) (record_field kind)
                    = created"
    and present: "\<not> nullish created"
    and req2: "metafield_request kind (js_delete reqBody ''requestName'') (own_property created ''id'')
                 = Inr metafieldRequest"
    and resp2: "client (issued st @ [createRequest]) metafieldRequest = Inr metafieldResponse"
    and mf: "mutation_result metafieldResponse ''metafieldsSet''
               = JObj [(''metafields'', metafields), (''userErrors'', JArr [])]"
  shows "post_api_graphql sp client reqBody st =
           (Inr (), st\<lparr>sent := sent st @ [ok_response],
                       issued := issued st @ [createRequest, metafieldRequest]\<rparr>)"
proof -
  let ?cr = "mutation_result createResponse (create_field kind)"
  have nn: "\<not> nullish ?cr"
    using noerr own_property_nullish [of ?cr "''userErrors''"] by auto
  have e: "empty_or_absent (own_property ?cr ''userErrors'')"
    by (simp add: noerr)
  have "handler kind sp client (js_delete reqBody ''requestName'') st =
          (Inr (), st\<lparr>sent := sent st @ [ok_response],
                      issued := issued st @ [createRequest, metafieldRequest]\<rparr>)"
    by (rule handler_metafields_object [where client = client, OF req resp nn e created present
          req2 resp2 mf]) simp
  then show ?thesis
    by (simp add: dispatch [OF name])
qed

theorem success_answers_200_empty_witness:
  "post_api_graphql no_string_positive
     (scripted_client
        (Inr (create_response Payment (JObj [(''id'', JStr ''gid://1'')]) (JArr [])))
        (Inr (metafields_response (JArr [JObj [(''id'', JStr ''gid://2'')]]) (JArr []))))
     (example_body Payment) initial_state
   = (Inr (), \<lparr>sent = [\<lparr>status = 200, body = None\<rparr>],
               issued = [\<lparr>query = PaymentCustomizationCreate,
                           variables = JObj [(''input'', JObj
                             [(''functionId'', JStr ''fn-2''),
                              (''title'', JStr ''Hide Cash if cart total is larger than 100''),
                              (''enabled'', JBool True)])]\<rparr>,
                         projr (payment_metafield_request
                           (js_delete (example_body Payment) ''requestName'') (JStr ''gid://1''))]\<rparr>)"
  using success_answers_200_empty
    [where reqBody = "example_body Payment" and kind = Payment and st = initial_state
       and sp = no_string_positive
       and client = "scripted_client
          (Inr (create_response Payment (JObj [(''id'', JStr ''gid://1'')]) (JArr [])))
          (Inr (metafields_response (JArr [JObj [(''id'', JStr ''gid://2'')]]) (JArr [])))"
       and createResponse = "create_response Payment (JObj [(''id'', JStr ''gid://1'')]) (JArr [])"
       and created = "JObj [(''id'', JStr ''gid://1'')]"
       and metafieldResponse = "metafields_response (JArr [JObj [(''id'', JStr ''gid://2'')]]) (JArr [])"
       and metafields = "JArr [JObj [(''id'', JStr ''gid://2'')]]"
       and createRequest = "\<lparr>query = PaymentCustomizationCreate,
                           variables = JObj [(''input'', JObj
                             [(''functionId'', JStr ''fn-2''),
                              (''title'', JStr ''Hide Cash if cart total is larger than 100''),
                              (''enabled'', JBool True)])]\<rparr>"
       and metafieldRequest = "projr (payment_metafield_request
                           (js_delete (example_body Payment) ''requestName'') (JStr ''gid://1''))"]
  by (simp add: js_get_def payment_create_request_def payment_metafield_request_def
      bind_error_def scripted_client_def initial_state_def create_response_def
      metafields_response_def mutation_result_own ok_response_def)

text \<open>
  C2. The claim fails on the code. In both handlers the check after the second call is
  \<^verbatim>\<open>handleUserError(metafieldResult, res)\<close>, on the result object and not on its
  \<^verbatim>\<open>userErrors\<close>: the object has no \<^verbatim>\<open>length\<close>, the check answers \<^verbatim>\<open>false\<close>, and the
  handler sends status 200. Here the create mutation succeeds and the metafield-set
  mutation reports the user error "Value is invalid", for a delivery and for a payment
  request: the one response sent is 200 with an empty body.
\<close>

theorem metafield_user_errors_answered_200:
  "post_api_graphql no_string_positive
     (scripted_client
        (Inr (create_response Delivery (JObj [(''id'', JStr ''gid://1'')]) (JArr [])))
        (Inr (metafields_response JNull (JArr [user_error ''Value is invalid'']))))
     (example_body Delivery) initial_state
   = (Inr (), \<lparr>sent = [\<lparr>status = 200, body = None\<rparr>],
               issued = [projr (delivery_create_request
                           (js_delete (example_body Delivery) ''requestName'')),
                         projr (delivery_metafield_request
                           (js_delete (example_body Delivery) ''requestName'') (JStr ''gid://1''))]\<rparr>)
   \<and>
   post_api_graphql no_string_positive
     (scripted_client
        (Inr (create_response Payment (JObj [(''id'', JStr ''gid://1'')]) (JArr [])))
        (Inr (metafields_response JNull (JArr [user_error ''Value is invalid'']))))
     (example_body Payment) initial_state
   = (Inr (), \<lparr>sent = [\<lparr>status = 200, body = None\<rparr>],
               issued = [projr (payment_create_request
                           (js_delete (example_body Payment) ''requestName'')),
                         projr (payment_metafield_request
                           (js_delete (example_body Payment) ''requestName'') (JStr ''gid://1''))]\<rparr>)"
  by (simp add: post_api_graphql_def js_get_def js_get_opt_def
      createDeliveryCustomization_def createDeliveryCustomization_try_def
      createPaymentCustomization_def createPaymentCustomization_try_def
      delivery_create_request_def delivery_metafield_request_def
      payment_create_request_def payment_metafield_request_def
      and_then_def evaluate_def graphql_query_def on_res_def bind_error_def
      scripted_client_def initial_state_def create_response_def metafields_response_def
      handleUserError_def res_status_send_def user_error_def)

text \<open>
  C3. The claim fails on the code for the delivery flow: its check after the second call
  is the same call as in the payment flow, on the result object. On the result of the
  metafield-set mutation that reports "Value is invalid", a check of the nested list
  answers \<^verbatim>\<open>true\<close> and sends status 500, the check of the object answers \<^verbatim>\<open>false\<close> and sends
  nothing, and the delivery handler sends status 200.
\<close>

theorem delivery_check_inspects_result_object:
  "handleUserError no_string_positive
     (own_property (mutation_result
        (metafields_response JNull (JArr [user_error ''Value is invalid''])) ''metafieldsSet'')
        ''userErrors'') []
   = (Inr True, [error_response (JStr ''Value is invalid'')])
   \<and>
   handleUserError no_string_positive
     (mutation_result
        (metafields_response JNull (JArr [user_error ''Value is invalid''])) ''metafieldsSet'') []
   = (Inr False, [])
   \<and>
   sent (snd (createDeliveryCustomization no_string_positive
     (scripted_client
        (Inr (create_response Delivery (JObj [(''id'', JStr ''gid://1'')]) (JArr [])))
        (Inr (metafields_response JNull (JArr [user_error ''Value is invalid'']))))
     (js_delete (example_body Delivery) ''requestName'') initial_state))
   = [\<lparr>status = 200, body = None\<rparr>]"
  by (simp add: js_get_def js_get_opt_def mutation_result_def
      createDeliveryCustomization_def createDeliveryCustomization_try_def
      delivery_create_request_def delivery_metafield_request_def
      and_then_def evaluate_def graphql_query_def on_res_def bind_error_def
      scripted_client_def initial_state_def create_response_def metafields_response_def
      handleUserError_def res_status_send_def user_error_def error_response_def
      join_messages_def Array_join_def)

section \<open>Errors thrown by the client\<close>

text \<open>
  C6. A request of either kind whose create call throws. If the error is a
  \<^verbatim>\<open>GraphqlQueryError\<close>, the handler completes and has sent one response, with status 500
  and the \<^verbatim>\<open>response\<close> of the error as its error. Any other error leaves the handler as it
  was thrown, and no response is sent. In both cases the create request is the only
  request issued.
\<close>

theorem create_call_throws:
  assumes name: "js_get reqBody ''requestName'' = Inr (JStr (request_name kind))"
    and req: "create_request kind (js_delete reqBody ''requestName'') = Inr createRequest"
    and thrown: "client (issued st) createRequest = Inl e"
  shows "post_api_graphql sp client reqBody st =
           (case e of
              GraphqlQueryError response \<Rightarrow>
                (Inr (), st\<lparr>sent := sent st @ [error_response response],
                            issued := issued st @ [createRequest]\<rparr>)
            | _ \<Rightarrow> (Inl e, st\<lparr>issued := issued st @ [createRequest]\<rparr>))
         \<and> \<not> is_metafields_set (query createRequest)"
  using dispatch [OF name]
    handler_create_throws [where client = client, OF req thrown]
    create_request_query [OF req]
  by (cases e) (simp_all add: res_status_send_def error_response_def)

theorem create_call_throws_witness:
  "post_api_graphql no_string_positive
     (scripted_client (Inl (GraphqlQueryError (JStr ''Field is not defined''))) (Inl TypeError))
     (example_body Delivery) initial_state
   = (Inr (), \<lparr>sent = [\<lparr>status = 500,
                          body = Some (JObj [(''error'', JStr ''Field is not defined'')])\<rparr>],
               issued = [projr (delivery_create_request
                           (js_delete (example_body Delivery) ''requestName''))]\<rparr>)
   \<and>
   post_api_graphql no_string_positive
     (scripted_client (Inl (OtherError ''socket hang up'')) (Inl TypeError))
     (example_body Payment) initial_state
   = (Inl (OtherError ''socket hang up''),
      \<lparr>sent = [],
        issued = [projr (payment_create_request
                    (js_delete (example_body Payment) ''requestName''))]\<rparr>)"
  using create_call_throws
    [where reqBody = "example_body Delivery" and kind = Delivery and st = initial_state
       and sp = no_string_positive and e = "GraphqlQueryError (JStr ''Field is not defined'')"
       and client = "scripted_client
          (Inl (GraphqlQueryError (JStr ''Field is not defined''))) (Inl TypeError)"
       and createRequest = "projr (delivery_create_request
                           (js_delete (example_body Delivery) ''requestName''))"]
    create_call_throws
    [where reqBody = "example_body Payment" and kind = Payment and st = initial_state
       and sp = no_string_positive and e = "OtherError ''socket hang up''"
       and client = "scripted_client (Inl (OtherError ''socket hang up'')) (Inl TypeError)"
       and createRequest = "projr (payment_create_request
                           (js_delete (example_body Payment) ''requestName''))"]
  by (simp add: js_get_def delivery_create_request_def payment_create_request_def
      bind_error_def scripted_client_def initial_state_def error_response_def)

section \<open>Unrecognized request names\<close>

text \<open>
  C7. A request whose \<^verbatim>\<open>requestName\<close> is neither of the two names: the dispatcher completes
  without throwing and leaves the state as it was, so no request is issued and no response
  is sent.
\<close>

theorem unknown_request_name_ignored:
  assumes "js_get reqBody ''requestName'' = Inr requestName"
    and "requestName \<noteq> JStr ''createDeliveryCustomization''"
    and "requestName \<noteq> JStr ''createPaymentCustomization''"
  shows "post_api_graphql sp client reqBody st = (Inr (), st)"
  using assms by (simp add: post_api_graphql_def)

theorem unknown_request_name_ignored_witness:
  "post_api_graphql no_string_positive (scripted_client (Inl TypeError) (Inl TypeError))
     (JObj [(''requestName'', JStr ''unknown''), (''functionId'', JStr ''fn-1'')]) initial_state
   = (Inr (), \<lparr>sent = [], issued = []\<rparr>)"
  using unknown_request_name_ignored
    [where reqBody = "JObj [(''requestName'', JStr ''unknown''), (''functionId'', JStr ''fn-1'')]"
       and requestName = "JStr ''unknown''" and st = initial_state and sp = no_string_positive
       and client = "scripted_client (Inl TypeError) (Inl TypeError)"]
  by (simp add: js_get_def initial_state_def)

section \<open>The message of a user-error response\<close>

text \<open>
  C8. On a non-empty list of user errors \<open>handleUserError\<close> answers \<^verbatim>\<open>true\<close> and sends one
  response, with status 500 and as its error the messages joined by a single space in list
  order; the two errors "A invalid" and "B required" give "A invalid B required".
\<close>

theorem user_errors_joined_by_space:
  "(ms \<noteq> [] \<longrightarrow>
      handleUserError sp (JArr (map user_error ms)) res
        = (Inr True, res @ [\<lparr>status = 500, body = Some (JObj [(''error'', JStr (space_joined ms))])\<rparr>]))
   \<and> handleUserError sp (JArr [user_error ''A invalid'', user_error ''B required'']) res
        = (Inr True, res @ [\<lparr>status = 500, body = Some (JObj [(''error'', JStr ''A invalid B required'')])\<rparr>])"
  using handleUserError_user_errors [of ms sp res]
    handleUserError_user_errors [of "[''A invalid'', ''B required'']" sp res]
  by (simp add: error_response_def)

theorem user_errors_joined_by_space_witness:
  "handleUserError no_string_positive (JArr (map user_error [''zip is invalid''])) []
     = (Inr True, [\<lparr>status = 500, body = Some (JObj [(''error'', JStr ''zip is invalid'')])\<rparr>])"
  using user_errors_joined_by_space [of "[''zip is invalid'']" no_string_positive "[]"]
  by simp

section \<open>A create result without the created record\<close>

text \<open>
  C10. A request of either kind whose create result has an empty or absent list of user
  errors and no created record (\<^verbatim>\<open>undefined\<close> or \<^verbatim>\<open>null\<close>): reading \<^verbatim>\<open>id\<close> of the record
  throws a \<^verbatim>\<open>TypeError\<close>, the handler throws it on, no response is sent, and the create
  request is the only request issued.
\<close>

theorem missing_record_throws_TypeError:
  assumes name: "js_get reqBody ''requestName'' = Inr (JStr (request_name kind))"
    and req: "create_request kind (js_delete reqBody ''requestName'') = Inr createRequest"
    and resp: "client (issued st) createRequest = Inr createResponse"
    and result: "mutation_result createResponse (create_field kind) = JObj fs"
    and noerr: "empty_or_absent (own_property (JObj fs) ''userErrors'')"
    and missing: "nullish (own_property (JObj fs) (record_field kind))"
  shows "post_api_graphql sp client reqBody st
       = (Inl TypeError, st\<lparr>issued := issued st @ [createRequest]\<rparr>)"
proof -
  have nn: "\<not> nullish (mutation_result createResponse (create_field kind))"
    by (simp add: result)
  have "handler kind sp client (js_delete reqBody ''requestName'') st
      = (Inl TypeError, st\<lparr>issued := issued st @ [createRequest]\<rparr>)"
    using noerr missing
    by (intro handler_record_missing [where client = client, OF req resp nn])
      (simp_all only: result)
  then show ?thesis
    by (simp add: dispatch [OF name])
qed

theorem missing_record_throws_TypeError_witness:
  "post_api_graphql no_string_positive
     (scripted_client (Inr (create_response Payment JNull (JArr [])))
        (Inr (metafields_response JNull (JArr []))))
     (example_body Payment) initial_state
   = (Inl TypeError,
      \<lparr>sent = [],
        issued = [projr (payment_create_request
                    (js_delete (example_body Payment) ''requestName''))]\<rparr>)"
  using missing_record_throws_TypeError
    [where reqBody = "example_body Payment" and kind = Payment and st = initial_state
       and sp = no_string_positive
       and client = "scripted_client (Inr (create_response Payment JNull (JArr [])))
          (Inr (metafields_response JNull (JArr [])))"
       and createResponse = "create_response Payment JNull (JArr [])"
       and fs = "[(''paymentCustomization'', JNull), (''userErrors'', JArr [])]"
       and createRequest = "projr (payment_create_request
                           (js_delete (example_body Payment) ''requestName''))"]
  by (simp add: js_get_def payment_create_request_def bind_error_def scripted_client_def
      initial_state_def create_response_def mutation_result_own)

section \<open>The arguments of handleUserError\<close>

lemma sequence_sum_isl: "isl (sequence_sum xs) = (\<exists>x\<in>set xs. isl x)"
  by (induction xs) (auto split: sum.splits)

lemma sequence_sum_map_isl: "isl (sequence_sum (map f xs)) = (\<exists>x\<in>set xs. isl (f x))"
  by (induction xs) (auto split: sum.splits)

lemma sequence_sum_Inl: "sequence_sum xs = Inl e \<Longrightarrow> Inl e \<in> set xs"
  by (induction xs) (auto split: sum.splits)

lemma js_to_string_TypeError: "js_to_string v = Inl e \<Longrightarrow> e = TypeError"
proof (induction v rule: js_to_string.induct)
  case (7 es)
  from "7.prems"
  have "sequence_sum (map (\<lambda>x. if nullish x then Inr [] else js_to_string x) es) = Inl e"
    by (simp split: sum.splits)
  then have "Inl e \<in> set (map (\<lambda>x. if nullish x then Inr [] else js_to_string x) es)"
    by (rule sequence_sum_Inl)
  then obtain x where "x \<in> set es" "\<not> nullish x" "js_to_string x = Inl e"
    by (auto split: if_splits)
  then show ?case
    using "7.IH" by blast
next
  case (8 ms)
  then show ?case
    by (simp split: if_splits)
qed simp_all

lemma js_gt_zero_TypeError: "js_gt_zero sp v = Inl e \<Longrightarrow> e = TypeError"
  by (cases v)
    (auto split: sum.splits dest: js_to_string_TypeError simp del: js_to_string.simps)

lemma map_message_TypeError: "map_message v = Inl e \<Longrightarrow> e = TypeError"
  by (cases v) (auto dest!: sequence_sum_Inl simp: js_get_def split: if_splits)

lemma join_messages_TypeError:
  assumes "join_messages ms = Inl e"
  shows "e = TypeError"
proof -
  from assms
  have "sequence_sum (map (\<lambda>m. if nullish m then Inr [] else js_to_string m) ms) = Inl e"
    by (simp add: join_messages_def split: sum.splits)
  then have "Inl e \<in> set (map (\<lambda>m. if nullish m then Inr [] else js_to_string m) ms)"
    by (rule sequence_sum_Inl)
  then obtain m where "js_to_string m = Inl e"
    by (auto split: if_splits)
  then show ?thesis
    by (rule js_to_string_TypeError)
qed

lemma map_message_array:
  "map_message (JArr es) =
     (if list_all (\<lambda>e. \<not> nullish e) es then Inr (map (\<lambda>e. own_property e ''message'') es)
      else Inl TypeError)"
proof -
  have "sequence_sum (map (\<lambda>error. js_get error ''message'') es) =
     (if list_all (\<lambda>e. \<not> nullish e) es then Inr (map (\<lambda>e. own_property e ''message'') es)
      else Inl TypeError)"
    by (induction es) (auto simp: js_get_def split: sum.splits)
  then show ?thesis
    by simp
qed

lemma join_messages_isl:
  "isl (join_messages ms) = (\<not> list_all (\<lambda>m. \<not> isl (js_to_string m)) ms)"
proof -
  have eq: "isl (if nullish m then Inr [] else js_to_string m) = isl (js_to_string m)" for m
    by (cases m) simp_all
  have "isl (join_messages ms)
      = isl (sequence_sum (map (\<lambda>m. if nullish m then Inr [] else js_to_string m) ms))"
    by (simp add: join_messages_def split: sum.splits)
  also have "\<dots> = (\<exists>m\<in>set ms. isl (js_to_string m))"
    unfolding sequence_sum_map_isl eq ..
  finally show ?thesis
    by (simp add: list_all_iff)
qed

lemma error_list_messages:
  "error_list (JArr es) =
     (es \<noteq> [] \<and> (\<exists>ms. map_message (JArr es) = Inr ms \<and> \<not> isl (join_messages ms)))"
  by (auto simp: map_message_array join_messages_isl list_all_iff simp del: map_message.simps)

lemma handleUserError_accepts:
  assumes "error_list v"
  shows "\<exists>m. handleUserError sp v res = (Inr True, res @ [error_response (JStr m)])"
proof -
  from assms obtain es where v: "v = JArr es"
    by (cases v) simp_all
  from assms have "es \<noteq> [] \<and> (\<exists>ms. map_message (JArr es) = Inr ms \<and> \<not> isl (join_messages ms))"
    unfolding v error_list_messages .
  then obtain ms where ne: "es \<noteq> []" and ms: "map_message (JArr es) = Inr ms"
    and j: "\<not> isl (join_messages ms)"
    by blast
  from j obtain m where m: "join_messages ms = Inr m"
    by (cases "join_messages ms") simp_all
  have len: "js_get (JArr es) ''length'' = Inr (JNum (int (length es)))"
    by (simp add: js_get_def)
  have "handleUserError sp (JArr es) res = (Inr True, res @ [error_response (JStr m)])"
    unfolding handleUserError_def len
    using ne by (simp add: ms m res_status_send_def error_response_def del: map_message.simps)
  then show ?thesis
    using v by blast
qed

lemma handleUserError_rejects:
  assumes "js_truthy v" and "js_gt_zero sp (own_property v ''length'') = Inr True"
    and "\<not> error_list v"
  shows "handleUserError sp v res = (Inl TypeError, res)"
proof -
  have nn: "\<not> nullish v"
    using assms(1) by (cases v) simp_all
  have len: "js_get v ''length'' = Inr (own_property v ''length'')"
    using nn by (rule js_get_own)
  have "map_message v = Inl TypeError
      \<or> (\<exists>ms. map_message v = Inr ms \<and> join_messages ms = Inl TypeError)"
  proof (cases v)
    case (JArr es)
    have ne: "es \<noteq> []"
      using assms(2) JArr by auto
    show ?thesis
    proof (cases "map_message (JArr es)")
      case (Inl e)
      then show ?thesis
        using JArr map_message_TypeError [of "JArr es" e] by simp
    next
      case (Inr ms)
      then have "isl (join_messages ms)"
        using assms(3) ne unfolding JArr error_list_messages by blast
      then obtain e where "join_messages ms = Inl e"
        by (cases "join_messages ms") simp_all
      then have "join_messages ms = Inl TypeError"
        using join_messages_TypeError by blast
      then show ?thesis
        using JArr Inr by simp
    qed
  qed simp_all
  then show ?thesis
    unfolding handleUserError_def len
    using assms(1,2) by (auto split: sum.splits)
qed

lemma handleUserError_declines:
  assumes "\<not> js_truthy v \<or> js_gt_zero sp (own_property v ''length'') = Inr False"
  shows "handleUserError sp v res = (Inr False, res)"
proof (cases "js_truthy v")
  case True
  then have "\<not> nullish v"
    by (cases v) simp_all
  then have "js_get v ''length'' = Inr (own_property v ''length'')"
    by (rule js_get_own)
  then show ?thesis
    using assms True by (simp add: handleUserError_def)
qed (simp add: handleUserError_falsy)

lemma handleUserError_comparison_throws:
  assumes "js_truthy v" and "js_gt_zero sp (own_property v ''length'') = Inl e"
  shows "handleUserError sp v res = (Inl TypeError, res)"
proof -
  have "\<not> nullish v"
    using assms(1) by (cases v) simp_all
  then have "js_get v ''length'' = Inr (own_property v ''length'')"
    by (rule js_get_own)
  moreover have "e = TypeError"
    using assms(2) by (rule js_gt_zero_TypeError)
  ultimately show ?thesis
    using assms by (simp add: handleUserError_def)
qed

lemma error_list_positive:
  "error_list v \<Longrightarrow> js_truthy v \<and> js_gt_zero sp (own_property v ''length'') = Inr True"
  by (cases v) auto

text \<open>
  C9. As stated the claim fails: an object with a \<^verbatim>\<open>length\<close> of 1 and the string "abc" are
  truthy and their \<^verbatim>\<open>length\<close> is greater than 0, but they have no \<^verbatim>\<open>map\<close>, so
  \<open>handleUserError\<close> throws a \<^verbatim>\<open>TypeError\<close> where the claim has it send status 500 and
  answer \<^verbatim>\<open>true\<close>.
\<close>

theorem truthy_with_length_counterexample:
  "js_truthy (JObj [(''length'', JNum 1)])
   \<and> js_gt_zero no_string_positive (own_property (JObj [(''length'', JNum 1)]) ''length'') = Inr True
   \<and> handleUserError no_string_positive (JObj [(''length'', JNum 1)]) [] = (Inl TypeError, [])
   \<and> js_truthy (JStr ''abc'')
   \<and> js_gt_zero no_string_positive (own_property (JStr ''abc'') ''length'') = Inr True
   \<and> handleUserError no_string_positive (JStr ''abc'') [] = (Inl TypeError, [])"
  by (simp add: handleUserError_def js_get_def)

text \<open>
  C9 as amended. \<open>handleUserError\<close> answers \<^verbatim>\<open>true\<close> exactly on a non-empty array whose
  elements are not \<^verbatim>\<open>undefined\<close> or \<^verbatim>\<open>null\<close> and have a \<^verbatim>\<open>message\<close> that converts to a
  string; then it sends one response, with status 500. On every other argument it sends
  nothing. It answers \<^verbatim>\<open>false\<close> when the argument is falsy or its \<^verbatim>\<open>length\<close> is not greater
  than 0, as for \<^verbatim>\<open>undefined\<close>, the empty array, and an object without \<^verbatim>\<open>length\<close> such as
  the result of the metafield-set mutation. On a truthy argument with a \<^verbatim>\<open>length\<close> greater
  than 0 that is no such array it throws a \<^verbatim>\<open>TypeError\<close>.
\<close>

theorem handleUserError_answers:
  "(fst (handleUserError sp v res) = Inr True \<longleftrightarrow> error_list v)
   \<and> (error_list v \<longrightarrow>
        (\<exists>m. snd (handleUserError sp v res) = res @ [\<lparr>status = 500, body = Some (JObj [(''error'', JStr m)])\<rparr>]))
   \<and> (\<not> error_list v \<longrightarrow> snd (handleUserError sp v res) = res)
   \<and> (\<not> js_truthy v \<or> js_gt_zero sp (own_property v ''length'') = Inr False \<longrightarrow>
        handleUserError sp v res = (Inr False, res))
   \<and> (js_truthy v \<and> js_gt_zero sp (own_property v ''length'') = Inr True \<and> \<not> error_list v \<longrightarrow>
        handleUserError sp v res = (Inl TypeError, res))"
proof -
  have other: "fst (handleUserError sp v res) \<noteq> Inr True \<and> snd (handleUserError sp v res) = res"
    if "\<not> error_list v"
  proof (cases "js_truthy v")
    case False
    then show ?thesis
      by (simp add: handleUserError_declines)
  next
    case True
    show ?thesis
    proof (cases "js_gt_zero sp (own_property v ''length'')")
      case (Inl e)
      then show ?thesis
        using True by (simp add: handleUserError_comparison_throws)
    next
      case (Inr b)
      then show ?thesis
        using True that
        by (cases b) (simp_all add: handleUserError_rejects handleUserError_declines)
    qed
  qed
  have accepted: "\<exists>m. handleUserError sp v res = (Inr True, res @ [error_response (JStr m)])"
    if "error_list v"
    using that by (rule handleUserError_accepts)
  have 1: "fst (handleUserError sp v res) = Inr True \<longleftrightarrow> error_list v"
    using other accepted by (cases "error_list v") auto
  have 2: "error_list v \<longrightarrow>
        (\<exists>m. snd (handleUserError sp v res) = res @ [\<lparr>status = 500, body = Some (JObj [(''error'', JStr m)])\<rparr>])"
    using accepted by (auto simp: error_response_def)
  have 3: "\<not> error_list v \<longrightarrow> snd (handleUserError sp v res) = res"
    using other by simp
  have 4: "\<not> js_truthy v \<or> js_gt_zero sp (own_property v ''length'') = Inr False \<longrightarrow>
        handleUserError sp v res = (Inr False, res)"
    by (simp add: handleUserError_declines)
  have 5: "js_truthy v \<and> js_gt_zero sp (own_property v ''length'') = Inr True \<and> \<not> error_list v \<longrightarrow>
        handleUserError sp v res = (Inl TypeError, res)"
    by (simp add: handleUserError_rejects)
  from 1 2 3 4 5 show ?thesis
    by blast
qed

theorem handleUserError_answers_witness:
  "handleUserError no_string_positive JUndefined [] = (Inr False, [])
   \<and> handleUserError no_string_positive (JArr []) [] = (Inr False, [])
   \<and> handleUserError no_string_positive
        (JObj [(''metafields'', JNull), (''userErrors'', JArr [user_error ''Value is invalid''])]) []
      = (Inr False, [])
   \<and> handleUserError no_string_positive (JObj [(''length'', JNum 1)]) [] = (Inl TypeError, [])
   \<and> fst (handleUserError no_string_positive (JArr [user_error ''Value is invalid'']) []) = Inr True
   \<and> (\<exists>m. snd (handleUserError no_string_positive (JArr [user_error ''Value is invalid'']) [])
          = [\<lparr>status = 500, body = Some (JObj [(''error'', JStr m)])\<rparr>])"
  using handleUserError_answers [of no_string_positive JUndefined "[]"]
    handleUserError_answers [of no_string_positive "JArr []" "[]"]
    handleUserError_answers [of no_string_positive
      "JObj [(''metafields'', JNull), (''userErrors'', JArr [user_error ''Value is invalid''])]" "[]"]
    handleUserError_answers [of no_string_positive "JObj [(''length'', JNum 1)]" "[]"]
    handleUserError_answers [of no_string_positive "JArr [user_error ''Value is invalid'']" "[]"]
  by (simp add: user_error_def)

section \<open>Reading a serialized value back\<close>

subsection \<open>Strings\<close>





subsection \<open>Numbers\<close>


lemma digit_value_digit_char: "d < 10 \<Longrightarrow> digit_value (digit_char d) = int d"
  by (simp add: digit_value_def digit_char_def)

lemma digit_char_zero: "d < 10 \<Longrightarrow> (digit_char d = CHR ''0'') = (d = 0)"
proof
  assume "d < 10" "digit_char d = CHR ''0''"
  then have "digit_value (digit_char d) = digit_value CHR ''0''"
    by simp
  then show "d = 0"
    using \<open>d < 10\<close> by (simp add: digit_value_digit_char) (simp add: digit_value_def)
next
  assume "d = 0"
  then have "(of_char (digit_char d) :: nat) = of_char CHR ''0''"
    by (simp add: digit_char_def)
  then show "digit_char d = CHR ''0''"
    by (simp only: of_char_eq_iff)
qed














subsection \<open>The order of the properties\<close>







subsection \<open>Values\<close>


























section \<open>The configuration value\<close>


















end
